theory Spec2Isabelle
  imports Main "HOL-Library.Word" "HOL-Library.Signed_Division"
begin

unbundle bit_operations_syntax

section \<open>Rules and chains (felix/nftables/rules.go)\<close>

text \<open>
  Go strings are byte sequences; they are modelled as \<open>string\<close> (a list of 8-bit
  characters). The match criteria and the action of a rule are collaborators whose code is
  not part of the two files verified here, so each is represented by what its interface
  returns: \<open>MatchCriteria\<close> by the fragment \<open>Render()\<close> yields and the IP set names
  \<open>IPSetNames()\<close> yields; an \<open>Action\<close> by its \<open>ToFragment(features)\<close> function
  and, when it implements \<open>Referrer\<close>, the chain \<open>ReferencedChain()\<close> names. The feature
  set \<open>'f\<close> is a type parameter. A nil \<open>Action\<close> interface is \<open>None\<close>.
\<close>

datatype MatchCriteria = MatchCriteria (Match_Render: string) (Match_IPSetNames: "string list")

datatype 'f Action = MkAction (ToFragment: "'f \<Rightarrow> string") (ReferencedChain: "string option")

record 'f Rule =
  Match :: MatchCriteria
  Action :: "'f Action option"
  Comment :: "string list"

record 'f Chain =
  Name :: string
  Rules :: "'f Rule list"

text \<open>The fields of \<open>knftables.Rule\<close> that the reconciler reads or writes.\<close>

record knRule =
  knChain :: string
  knRule :: string
  knComment :: "string option"
  knHandle :: "int option"

definition HashLength :: nat where
  "HashLength = 16"

definition maxCommentLen :: nat where
  "maxCommentLen = 256"

text \<open>\<open>strings.Join(elems, sep)\<close>.\<close>

fun Join :: "string list \<Rightarrow> string \<Rightarrow> string" where
  "Join [] sep = []"
| "Join [x] sep = x"
| "Join (x # y # ys) sep = x @ sep @ Join (y # ys) sep"

text \<open>
  \<open>renderInner\<close>: the fragments handed in, then the prefix fragment, the match fragment
  and the action fragment, each only when it is not empty, joined by single spaces; the
  literal \<open>counter\<close> when the joined text is empty.
\<close>

definition renderInner :: "'f Rule \<Rightarrow> string list \<Rightarrow> string \<Rightarrow> 'f \<Rightarrow> string" where
  "renderInner r fragments prefixFragment features =
    (let fragments1 = (if prefixFragment \<noteq> [] then fragments @ [prefixFragment] else fragments);
         matchFragment = Match_Render (Match r);
         fragments2 = (if matchFragment \<noteq> [] then fragments1 @ [matchFragment] else fragments1);
         fragments3 =
           (case Action r of
              None \<Rightarrow> fragments2
            | Some a \<Rightarrow>
                (let actionFragment = ToFragment a features
                 in if actionFragment \<noteq> [] then fragments2 @ [actionFragment] else fragments2));
         inner = Join fragments3 '' ''
     in if length inner = 0 then ''counter'' else inner)"

text \<open>
  \<open>escapeComment\<close> replaces every match of the regular expression
  \<open>[^\w @%+=:,./-]\<close> by an underscore. Go's regexp engine walks the string rune by rune:
  a byte below 0x80 is a rune of its own, a well-formed UTF-8 sequence of two to four
  bytes is one rune, and any other byte is the replacement rune of width one. Every rune
  that is not ASCII lies outside the character class, so it is replaced as a whole.
\<close>

definition shellSafe :: "char \<Rightarrow> bool" where
  "shellSafe c =
    (let n = (of_char c :: nat)
     in (48 \<le> n \<and> n \<le> 57) \<or> (65 \<le> n \<and> n \<le> 90) \<or> (97 \<le> n \<and> n \<le> 122) \<or>
        c \<in> set ''_ @%+=:,./-'')"

definition contByte :: "nat \<Rightarrow> nat \<Rightarrow> string \<Rightarrow> nat \<Rightarrow> bool" where
  "contByte lo hi s i = (i < length s \<and> lo \<le> (of_char (s ! i) :: nat) \<and> (of_char (s ! i) :: nat) \<le> hi)"

definition runeWidth :: "string \<Rightarrow> nat" where
  "runeWidth s =
    (case s of
       [] \<Rightarrow> 0
     | c # _ \<Rightarrow>
        (let b = (of_char c :: nat) in
         if 194 \<le> b \<and> b \<le> 223 then (if contByte 128 191 s 1 then 2 else 1)
         else if 224 \<le> b \<and> b \<le> 239 then
           (if contByte (if b = 224 then 160 else 128) (if b = 237 then 159 else 191) s 1
               \<and> contByte 128 191 s 2 then 3 else 1)
         else if 240 \<le> b \<and> b \<le> 244 then
           (if contByte (if b = 240 then 144 else 128) (if b = 244 then 143 else 191) s 1
               \<and> contByte 128 191 s 2 \<and> contByte 128 191 s 3 then 4 else 1)
         else 1))"

function escapeComment :: "string \<Rightarrow> string" where
  "escapeComment [] = []"
| "escapeComment (c # cs) =
    (if (of_char c :: nat) < 128 then (if shellSafe c then c else CHR ''_'') # escapeComment cs
     else CHR ''_'' # escapeComment (drop (runeWidth (c # cs) - 1) cs))"
  by pat_completeness auto
termination
  by (relation "measure length") auto

definition truncateComment :: "string \<Rightarrow> string" where
  "truncateComment s = (if length s > maxCommentLen then take maxCommentLen s else s)"

text \<open>
  \<open>Rule.comment\<close>: one fragment \<open>prefixFragment; c\<close> per user comment line, joined by
  spaces; nil (\<open>None\<close>) when the joined text is empty.
\<close>

definition comment :: "'f Rule \<Rightarrow> string \<Rightarrow> string option" where
  "comment r prefixFragment =
    (let fragments = map (\<lambda>c. prefixFragment @ ''; '' @ truncateComment (escapeComment c)) (Comment r);
         cmt = Join fragments '' ''
     in if cmt = [] then None else Some cmt)"

definition Render :: "'f Rule \<Rightarrow> string \<Rightarrow> string \<Rightarrow> 'f \<Rightarrow> knRule" where
  "Render r chain prefixFragment features =
    \<lparr> knChain = chain,
      knRule = renderInner r [] [] features,
      knComment = comment r prefixFragment,
      knHandle = None \<rparr>"

definition RenderAppend :: "'f Rule \<Rightarrow> string \<Rightarrow> string \<Rightarrow> string \<Rightarrow> 'f \<Rightarrow> string" where
  "RenderAppend r table chainName prefixFragment features =
    renderInner r [''add rule'', table, chainName] prefixFragment features"

text \<open>
  \<open>Chain.RuleHashes\<close>. SHA-224 and the unpadded URL-safe base64 encoding come from Go's
  standard library; they are the fields \<open>sha224\<close> (the digest of a byte string) and
  \<open>b64\<close> of the parameter \<open>lib\<close>. The hash object is written the previous digest and then the rule rendered by
  \<open>RenderAppend\<close> with an empty table name and the prefix fragment \<open>HASH\<close>. A SHA-224
  digest has 28 bytes and encodes to 38 characters, so the slice \<open>[:HashLength]\<close> is in
  range; it is \<open>take HashLength\<close>. The callers in table.go never pass a nil chain.
\<close>

record StdLib =
  sha224 :: "string \<Rightarrow> string"
  b64 :: "string \<Rightarrow> string"

fun hashRules :: "StdLib \<Rightarrow> string \<Rightarrow> 'f \<Rightarrow> string \<Rightarrow> 'f Rule list \<Rightarrow> string list" where
  "hashRules lib name features hash [] = []"
| "hashRules lib name features hash (rule # rest) =
    (let ruleForHashing = RenderAppend rule [] name ''HASH'' features;
         hash' = sha224 lib (hash @ ruleForHashing)
     in take HashLength (b64 lib hash') # hashRules lib name features hash' rest)"

definition RuleHashes :: "StdLib \<Rightarrow> 'f Chain \<Rightarrow> 'f \<Rightarrow> string list" where
  "RuleHashes lib c features = hashRules lib (Name c) features (sha224 lib (Name c)) (Rules c)"

definition CalculateRuleHashes :: "StdLib \<Rightarrow> string \<Rightarrow> 'f Rule list \<Rightarrow> 'f \<Rightarrow> string list" where
  "CalculateRuleHashes lib chainName rules features =
    RuleHashes lib \<lparr> Name = chainName, Rules = rules \<rparr> features"

definition IPSetNames :: "'f Chain \<Rightarrow> string list" where
  "IPSetNames c = concat (map (\<lambda>rule. Match_IPSetNames (Match rule)) (Rules c))"

fun numEmptyStrings :: "string list \<Rightarrow> nat" where
  "numEmptyStrings [] = 0"
| "numEmptyStrings (s # strs) = (if s = [] then Suc (numEmptyStrings strs) else numEmptyStrings strs)"


section \<open>The table (felix/nftables/table.go)\<close>

text \<open>
  A \<open>time.Duration\<close> is a signed 64-bit count of nanoseconds: a \<open>64 word\<close> read with
  \<open>sint\<close> and compared with \<open>\<le>s\<close> and \<open><s\<close>. An instant (\<open>time.Time\<close>) is an
  integer count of nanoseconds. Reference counts are Go \<open>int\<close>s; they are \<open>int\<close> here,
  since a count moves by one per call and cannot reach the 64-bit range.
\<close>

type_synonym Duration = "64 word"

definition Millisecond :: Duration where
  "Millisecond = 1000000"

definition Hour :: Duration where
  "Hour = 3600000000000"

definition minPostWriteInterval :: Duration where
  "minPostWriteInterval = 50 * Millisecond"

definition tableToChains :: "string \<Rightarrow> string list" where
  "tableToChains name =
    (if name = ''cali-filter'' then [''INPUT'', ''FORWARD'', ''OUTPUT'']
     else if name = ''cali-nat'' then [''PREROUTING'', ''INPUT'', ''OUTPUT'', ''POSTROUTING'']
     else if name = ''cali-mangle'' then [''PREROUTING'', ''INPUT'', ''FORWARD'', ''OUTPUT'', ''POSTROUTING'']
     else if name = ''cali-raw'' then [''PREROUTING'', ''OUTPUT'']
     else [])"

text \<open>
  What one attempt to read the table gets from the kernel: \<open>nft.List\<close> fails, or it
  returns the chain names, each paired here with what \<open>nft.ListRules\<close> then returns for it
  (\<open>None\<close> when that call fails).
\<close>

datatype Listing = ListFailed | Listed "(string \<times> knRule list option) list"

datatype panic = IndexOutOfRange | ReadFailedAfterRetries | WriteFailedAfterRetries | UnknownInsertMode

text \<open>
  The \<open>Table\<close> struct. Go maps are partial functions, \<open>set.Set[string]\<close> is a set. The
  compiled \<open>ourChainsRegexp\<close> is the predicate \<open>MatchString\<close> computes. The loggers, the
  Prometheus metrics and the operation recorder are left out: nothing reads them back.
  The collaborators the struct holds are scripted: \<open>featureDetector\<close> gives the features
  detected after each refresh and \<open>featureRefreshes\<close> counts the refreshes so far;
  \<open>nftList k\<close> is the answer to the \<open>k\<close>-th read of the table and \<open>nftRun k\<close> tells
  whether the \<open>k\<close>-th \<open>nft.Run\<close> succeeds; \<open>timeNow k\<close> is the \<open>k\<close>-th reading of the
  clock. \<open>nftNewTransactions\<close>, \<open>nftListCalls\<close>, \<open>nftRunCalls\<close> and \<open>timeNowCalls\<close>
  count the calls made so far, \<open>slept\<close> records the arguments of \<open>timeSleep\<close> in order,
  \<open>stillAliveCalls\<close> counts the calls of \<open>onStillAlive\<close> and \<open>diagsLoaded\<close> the runs
  of the diagnostic command \<open>nft list table\<close>.
\<close>

record 'f Table =
  TableName :: string
  chainToInsertedRules :: "string \<rightharpoonup> 'f Rule list"
  chainToAppendedRules :: "string \<rightharpoonup> 'f Rule list"
  dirtyInsertAppend :: "string set"
  chainNameToChain :: "string \<rightharpoonup> 'f Chain"
  chainRefCounts :: "string \<rightharpoonup> int"
  dirtyChains :: "string set"
  inSyncWithDataPlane :: bool
  chainToDataplaneHashes :: "string \<rightharpoonup> string list"
  chainToFullRules :: "string \<rightharpoonup> knRule list"
  hashCommentPrefix :: string
  ourChainsRegexp :: "string \<Rightarrow> bool"
  insertMode :: string
  lastReadTime :: int
  lastWriteTime :: int
  initialPostWriteInterval :: Duration
  postWriteInterval :: Duration
  refreshInterval :: Duration
  peakNftablesReadTime :: Duration
  peakNftablesWriteTime :: Duration
  reason :: string
  featureDetector :: "nat \<Rightarrow> 'f"
  featureRefreshes :: nat
  nftList :: "nat \<Rightarrow> Listing"
  nftListCalls :: nat
  nftRun :: "nat \<Rightarrow> bool"
  nftRunCalls :: nat
  nftNewTransactions :: nat
  timeNow :: "nat \<Rightarrow> int"
  timeNowCalls :: nat
  slept :: "Duration list"
  stillAliveCalls :: nat
  diagsLoaded :: nat

definition GetFeatures :: "'f Table \<Rightarrow> 'f" where
  "GetFeatures t = featureDetector t (featureRefreshes t)"

definition RefreshFeatures :: "'f Table \<Rightarrow> 'f Table" where
  "RefreshFeatures t = t\<lparr>featureRefreshes := Suc (featureRefreshes t)\<rparr>"

text \<open>Reading the clock: the instant, and the table with the reading counted.\<close>

definition readClock :: "'f Table \<Rightarrow> int \<times> 'f Table" where
  "readClock t = (timeNow t (timeNowCalls t), t\<lparr>timeNowCalls := Suc (timeNowCalls t)\<rparr>)"

text \<open>A lookup in a Go map of slices: a missing key gives the nil slice, of length 0.\<close>

definition slice :: "('k \<rightharpoonup> 'a list) \<Rightarrow> 'k \<Rightarrow> 'a list" where
  "slice m k = (case m k of None \<Rightarrow> [] | Some xs \<Rightarrow> xs)"

text \<open>A lookup in \<open>chainRefCounts\<close>: a missing key gives 0.\<close>

definition refCount :: "'f Table \<Rightarrow> string \<Rightarrow> int" where
  "refCount t name = (case chainRefCounts t name of None \<Rightarrow> 0 | Some n \<Rightarrow> n)"

definition chainIsReferenced :: "'f Table \<Rightarrow> string \<Rightarrow> bool" where
  "chainIsReferenced t name = (refCount t name > 0)"

definition desiredStateOfChain :: "'f Table \<Rightarrow> string \<Rightarrow> 'f Chain option" where
  "desiredStateOfChain t chainName =
    (if \<not> chainIsReferenced t chainName then None else chainNameToChain t chainName)"

definition commentFrag :: "'f Table \<Rightarrow> string \<Rightarrow> string" where
  "commentFrag t hash = hashCommentPrefix t @ hash"

definition InvalidateDataplaneCache :: "string \<Rightarrow> 'f Table \<Rightarrow> 'f Table" where
  "InvalidateDataplaneCache why t =
    (if \<not> inSyncWithDataPlane t then t
     else t\<lparr>inSyncWithDataPlane := False, reason := why\<rparr>)"

text \<open>
  \<open>NewTable\<close>. The options are passed one by one; the regular expression compiled from
  \<open>HistoricChainPrefixes\<close> is passed as the predicate it decides. An unknown insert mode
  panics. The clock is read once, for \<open>lastWriteTime\<close>. The fields that the Go composite
  literal does not mention get their zero values.
\<close>

fun kernelRefs :: "string list \<Rightarrow> (string \<rightharpoonup> int) \<Rightarrow> (string \<rightharpoonup> int)" where
  "kernelRefs [] refcounts = refcounts"
| "kernelRefs (kernelChain # rest) refcounts =
    kernelRefs rest
      (refcounts(kernelChain \<mapsto> (case refcounts kernelChain of None \<Rightarrow> 0 | Some n \<Rightarrow> n) + 1))"

definition NewTable ::
  "string \<Rightarrow> string \<Rightarrow> (nat \<Rightarrow> 'f) \<Rightarrow> (string \<Rightarrow> bool) \<Rightarrow> string \<Rightarrow> Duration \<Rightarrow> Duration \<Rightarrow>
   (nat \<Rightarrow> Listing) \<Rightarrow> (nat \<Rightarrow> bool) \<Rightarrow> (nat \<Rightarrow> int) \<Rightarrow> panic + 'f Table" where
  "NewTable name hashPrefix detector ourChains optInsertMode optRefreshInterval optPostWriteInterval
      list run now =
    (if optInsertMode \<noteq> [] \<and> optInsertMode \<noteq> ''insert'' \<and> optInsertMode \<noteq> ''append''
     then Inl UnknownInsertMode
     else
      (let kernelChains = tableToChains name;
           pwi = (if optPostWriteInterval \<le>s minPostWriteInterval then minPostWriteInterval
                  else optPostWriteInterval)
       in Inr \<lparr> TableName = name,
                chainToInsertedRules = (\<lambda>c. if c \<in> set kernelChains then Some [] else None),
                chainToAppendedRules = (\<lambda>c. if c \<in> set kernelChains then Some [] else None),
                dirtyInsertAppend = set kernelChains,
                chainNameToChain = Map.empty,
                chainRefCounts = kernelRefs kernelChains Map.empty,
                dirtyChains = {},
                inSyncWithDataPlane = False,
                chainToDataplaneHashes = Map.empty,
                chainToFullRules = Map.empty,
                hashCommentPrefix = hashPrefix,
                ourChainsRegexp = ourChains,
                insertMode = (if optInsertMode = ''append'' then ''append'' else ''insert''),
                lastReadTime = 0,
                lastWriteTime = now 0,
                initialPostWriteInterval = pwi,
                postWriteInterval = pwi,
                refreshInterval = optRefreshInterval,
                peakNftablesReadTime = 0,
                peakNftablesWriteTime = 0,
                reason = [],
                featureDetector = detector,
                featureRefreshes = 0,
                nftList = list,
                nftListCalls = 0,
                nftRun = run,
                nftRunCalls = 0,
                nftNewTransactions = 0,
                timeNow = now,
                timeNowCalls = 1,
                slept = [],
                stillAliveCalls = 0,
                diagsLoaded = 0 \<rparr>))"

subsection \<open>Reference counts\<close>

text \<open>
  \<open>increfChain\<close> and \<open>decrefChain\<close> call themselves through the rules of the chains they
  reach, and \<open>decrefChain\<close> does not return on a cycle of chains that refer to each other.
  The first argument bounds the depth of the calls; \<open>None\<close> is the bound exceeded.
  \<open>increfRules\<close> and \<open>decrefRules\<close> are the loops over the rules, which call on for the
  actions that are a \<open>Referrer\<close>.
\<close>

definition referredChain :: "'f Rule \<Rightarrow> string option" where
  "referredChain r = (case Action r of None \<Rightarrow> None | Some a \<Rightarrow> ReferencedChain a)"

fun increfChain :: "nat \<Rightarrow> string \<Rightarrow> 'f Table \<Rightarrow> 'f Table option"
  and maybeIncrefReferredChains :: "nat \<Rightarrow> string \<Rightarrow> 'f Rule list \<Rightarrow> 'f Table \<Rightarrow> 'f Table option"
  and increfRules :: "nat \<Rightarrow> 'f Rule list \<Rightarrow> 'f Table \<Rightarrow> 'f Table option" where
  "increfChain 0 chainName t = None"
| "increfChain (Suc depth) chainName t =
    (let t1 = t\<lparr>chainRefCounts := (chainRefCounts t)(chainName \<mapsto> refCount t chainName + 1)\<rparr>
     in if refCount t1 chainName = 1 then
          (let t2 = t1\<lparr>dirtyChains := insert chainName (dirtyChains t1)\<rparr>
           in case chainNameToChain t2 chainName of
                Some chain \<Rightarrow> maybeIncrefReferredChains depth chainName (Rules chain) t2
              | None \<Rightarrow> Some t2)
        else Some t1)"
| "maybeIncrefReferredChains depth chainName rules t =
    (if \<not> chainIsReferenced t chainName then Some t else increfRules depth rules t)"
| "increfRules depth [] t = Some t"
| "increfRules depth (r # rules) t =
    (case referredChain r of
       Some ref \<Rightarrow>
         (case increfChain depth ref t of
            None \<Rightarrow> None
          | Some t' \<Rightarrow> increfRules depth rules t')
     | None \<Rightarrow> increfRules depth rules t)"

fun decrefChain :: "nat \<Rightarrow> string \<Rightarrow> 'f Table \<Rightarrow> 'f Table option"
  and maybeDecrefReferredChains :: "nat \<Rightarrow> string \<Rightarrow> 'f Rule list \<Rightarrow> 'f Table \<Rightarrow> 'f Table option"
  and decrefRules :: "nat \<Rightarrow> 'f Rule list \<Rightarrow> 'f Table \<Rightarrow> 'f Table option" where
  "decrefChain 0 chainName t = None"
| "decrefChain (Suc depth) chainName t =
    (if refCount t chainName = 1 then
       (case (case chainNameToChain t chainName of
                Some chain \<Rightarrow> maybeDecrefReferredChains depth chainName (Rules chain) t
              | None \<Rightarrow> Some t) of
          None \<Rightarrow> None
        | Some t1 \<Rightarrow>
            Some (t1\<lparr>chainRefCounts := (chainRefCounts t1)(chainName := None),
                      dirtyChains := insert chainName (dirtyChains t1)\<rparr>))
     else Some (t\<lparr>chainRefCounts := (chainRefCounts t)(chainName \<mapsto> refCount t chainName - 1)\<rparr>))"
| "maybeDecrefReferredChains depth chainName rules t =
    (if \<not> chainIsReferenced t chainName then Some t else decrefRules depth rules t)"
| "decrefRules depth [] t = Some t"
| "decrefRules depth (r # rules) t =
    (case referredChain r of
       Some ref \<Rightarrow>
         (case decrefChain depth ref t of
            None \<Rightarrow> None
          | Some t' \<Rightarrow> decrefRules depth rules t')
     | None \<Rightarrow> decrefRules depth rules t)"

subsection \<open>The public mutations\<close>

definition InsertOrAppendRules :: "nat \<Rightarrow> string \<Rightarrow> 'f Rule list \<Rightarrow> 'f Table \<Rightarrow> 'f Table option" where
  "InsertOrAppendRules depth chainName rules t =
    (let oldRules = slice (chainToInsertedRules t) chainName;
         t1 = t\<lparr>chainToInsertedRules := (chainToInsertedRules t)(chainName \<mapsto> rules)\<rparr>;
         t2 = t1\<lparr>dirtyInsertAppend := insert chainName (dirtyInsertAppend t1)\<rparr>
     in case maybeIncrefReferredChains depth chainName rules t2 of
          None \<Rightarrow> None
        | Some t3 \<Rightarrow>
            (case maybeDecrefReferredChains depth chainName oldRules t3 of
               None \<Rightarrow> None
             | Some t4 \<Rightarrow> Some (InvalidateDataplaneCache ''insertion'' t4)))"

definition AppendRules :: "nat \<Rightarrow> string \<Rightarrow> 'f Rule list \<Rightarrow> 'f Table \<Rightarrow> 'f Table option" where
  "AppendRules depth chainName rules t =
    (let oldRules = slice (chainToAppendedRules t) chainName;
         t1 = t\<lparr>chainToAppendedRules := (chainToAppendedRules t)(chainName \<mapsto> rules)\<rparr>;
         t2 = t1\<lparr>dirtyInsertAppend := insert chainName (dirtyInsertAppend t1)\<rparr>
     in case maybeIncrefReferredChains depth chainName rules t2 of
          None \<Rightarrow> None
        | Some t3 \<Rightarrow>
            (case maybeDecrefReferredChains depth chainName oldRules t3 of
               None \<Rightarrow> None
             | Some t4 \<Rightarrow> Some (InvalidateDataplaneCache ''insertion'' t4)))"

definition UpdateChain :: "nat \<Rightarrow> 'f Chain \<Rightarrow> 'f Table \<Rightarrow> 'f Table option" where
  "UpdateChain depth chain t =
    (case maybeIncrefReferredChains depth (Name chain) (Rules chain) t of
       None \<Rightarrow> None
     | Some t1 \<Rightarrow>
        (case (case chainNameToChain t1 (Name chain) of
                 Some oldChain \<Rightarrow> maybeDecrefReferredChains depth (Name chain) (Rules oldChain) t1
               | None \<Rightarrow> Some t1) of
           None \<Rightarrow> None
         | Some t2 \<Rightarrow>
            (let t3 = t2\<lparr>chainNameToChain := (chainNameToChain t2)(Name chain \<mapsto> chain)\<rparr>
             in if chainIsReferenced t3 (Name chain)
                then Some (InvalidateDataplaneCache ''chain update''
                             (t3\<lparr>dirtyChains := insert (Name chain) (dirtyChains t3)\<rparr>))
                else Some t3)))"

definition RemoveChainByName :: "nat \<Rightarrow> string \<Rightarrow> 'f Table \<Rightarrow> 'f Table option" where
  "RemoveChainByName depth name t =
    (case chainNameToChain t name of
       None \<Rightarrow> Some t
     | Some oldChain \<Rightarrow>
        (case maybeDecrefReferredChains depth name (Rules oldChain) t of
           None \<Rightarrow> None
         | Some t1 \<Rightarrow>
            (let t2 = t1\<lparr>chainNameToChain := (chainNameToChain t1)(name := None)\<rparr>
             in if chainIsReferenced t2 name
                then Some (InvalidateDataplaneCache ''chain removal''
                             (t2\<lparr>dirtyChains := insert name (dirtyChains t2)\<rparr>))
                else Some t2)))"


subsection \<open>Reading the dataplane\<close>

text \<open>
  \<open>strings.Split(s, sep)\<close> for a separator of one byte, and \<open>strings.TrimPrefix\<close>.
\<close>

fun Split :: "string \<Rightarrow> char \<Rightarrow> string list" where
  "Split [] sep = [[]]"
| "Split (c # cs) sep =
    (if c = sep then [] # Split cs sep
     else (case Split cs sep of
             [] \<Rightarrow> [[c]]
           | w # ws \<Rightarrow> (c # w) # ws))"

definition TrimPrefix :: "string \<Rightarrow> string \<Rightarrow> string" where
  "TrimPrefix s pre = (if take (length pre) s = pre then drop (length pre) s else s)"

text \<open>
  The hash that \<open>attemptToGetHashesAndRulesFromDataplane\<close> records for one rule. The list
  \<open>Split\<close> returns is never empty, so index 0 is in range.
\<close>

definition ruleHash :: "string \<Rightarrow> knRule \<Rightarrow> string" where
  "ruleHash hashPrefix rule =
    (case knComment rule of
       None \<Rightarrow> []
     | Some c \<Rightarrow> TrimPrefix (Split c CHR '':'' ! 0) hashPrefix)"

fun listChains ::
  "string \<Rightarrow> (string \<times> knRule list option) list \<Rightarrow> (string \<rightharpoonup> string list) \<Rightarrow> (string \<rightharpoonup> knRule list) \<Rightarrow>
   ((string \<rightharpoonup> string list) \<times> (string \<rightharpoonup> knRule list)) option" where
  "listChains hashPrefix [] hashes rules = Some (hashes, rules)"
| "listChains hashPrefix ((chain, None) # rest) hashes rules = None"
| "listChains hashPrefix ((chain, Some rulesInChain) # rest) hashes rules =
    listChains hashPrefix rest
      (hashes(chain \<mapsto> map (ruleHash hashPrefix) rulesInChain))
      (rules(chain \<mapsto> rulesInChain))"

text \<open>
  \<open>Time.Sub\<close> gives the difference of two instants as a \<open>Duration\<close>, saturated at the
  largest and the smallest one; \<open>Time.Add\<close> moves an instant by a \<open>Duration\<close>.
\<close>

definition Sub :: "int \<Rightarrow> int \<Rightarrow> Duration" where
  "Sub a b =
    (let d = a - b
     in if d > 9223372036854775807 then word_of_int 9223372036854775807
        else if d < - 9223372036854775808 then word_of_int (- 9223372036854775808)
        else word_of_int d)"

definition Add :: "int \<Rightarrow> Duration \<Rightarrow> int" where
  "Add a d = a + sint d"

text \<open>
  The deferred function of \<open>attemptToGetHashesAndRulesFromDataplane\<close>: the peak read time
  decays by one percent (Go's division truncates towards zero) and is raised to the
  duration of this read when that is longer.
\<close>

definition decayPeak :: "Duration \<Rightarrow> Duration \<Rightarrow> Duration" where
  "decayPeak peak saveDuration =
    (let peak1 = (word_of_int (sint (peak * 99) sdiv 100) :: Duration)
     in if peak1 <s saveDuration then saveDuration else peak1)"

definition attemptToGetHashesAndRulesFromDataplane ::
  "'f Table \<Rightarrow> ((string \<rightharpoonup> string list) \<times> (string \<rightharpoonup> knRule list)) option \<times> 'f Table" where
  "attemptToGetHashesAndRulesFromDataplane t =
    (let (startTime, t1) = readClock t;
         answer = nftList t1 (nftListCalls t1);
         t2 = t1\<lparr>nftListCalls := Suc (nftListCalls t1)\<rparr>;
         result = (case answer of
                     ListFailed \<Rightarrow> None
                   | Listed chainList \<Rightarrow> listChains (hashCommentPrefix t2) chainList Map.empty Map.empty);
         (endTime, t3) = readClock t2;
         saveDuration = Sub endTime startTime
     in (result, t3\<lparr>peakNftablesReadTime := decayPeak (peakNftablesReadTime t3) saveDuration\<rparr>))"

text \<open>
  \<open>getHashesAndRulesFromDataplane\<close>: the loop with its counter \<open>retries\<close> and its
  \<open>retryDelay\<close>; the panic after the last retry is \<open>Inl\<close>.
\<close>

fun getHashesLoop ::
  "nat \<Rightarrow> Duration \<Rightarrow> 'f Table \<Rightarrow>
   (panic + ((string \<rightharpoonup> string list) \<times> (string \<rightharpoonup> knRule list))) \<times> 'f Table" where
  "getHashesLoop retries retryDelay t =
    (let t1 = t\<lparr>stillAliveCalls := Suc (stillAliveCalls t)\<rparr>;
         (result, t2) = attemptToGetHashesAndRulesFromDataplane t1
     in case result of
          Some found \<Rightarrow> (Inr found, t2)
        | None \<Rightarrow>
           (case retries of
              Suc retries' \<Rightarrow> getHashesLoop retries' (retryDelay * 2) (t2\<lparr>slept := slept t2 @ [retryDelay]\<rparr>)
            | 0 \<Rightarrow> (Inl ReadFailedAfterRetries, t2)))"

definition getHashesAndRulesFromDataplane ::
  "'f Table \<Rightarrow> (panic + ((string \<rightharpoonup> string list) \<times> (string \<rightharpoonup> knRule list))) \<times> 'f Table" where
  "getHashesAndRulesFromDataplane t = getHashesLoop 3 (100 * Millisecond) t"

subsection \<open>Expected hashes of a chain we insert into\<close>

text \<open>
  The two loops of \<open>expectedHashesForInsertAppendChain\<close> store hash \<open>i\<close> at index
  \<open>i + offset\<close> of \<open>allHashes\<close>; \<open>storeFrom\<close> is such a loop, started at \<open>offset\<close>. The
  count of foreign rules is never negative (it is a \<open>numEmptyStrings\<close>), so it is a
  \<open>nat\<close>. A nil slice of hashes is the empty list.
\<close>

fun storeFrom :: "nat \<Rightarrow> string list \<Rightarrow> string list \<Rightarrow> string list" where
  "storeFrom k [] allHashes = allHashes"
| "storeFrom k (hash # rest) allHashes = storeFrom (Suc k) rest (allHashes[k := hash])"

definition expectedHashesForInsertAppendChain ::
  "StdLib \<Rightarrow> 'f Table \<Rightarrow> string \<Rightarrow> nat \<Rightarrow> string list \<times> string list \<times> string list" where
  "expectedHashesForInsertAppendChain lib t chainName numNonCalicoRules =
    (let insertedRules = slice (chainToInsertedRules t) chainName;
         appendedRules = slice (chainToAppendedRules t) chainName;
         allHashes = replicate (length insertedRules + length appendedRules + numNonCalicoRules) [];
         features = GetFeatures t;
         ourInsertedHashes =
           (if length insertedRules > 0 then CalculateRuleHashes lib chainName insertedRules features else []);
         ourAppendedHashes =
           (if length appendedRules > 0
            then CalculateRuleHashes lib (chainName @ ''*appends*'') appendedRules features else []);
         offset = (if insertMode t = ''append'' then numNonCalicoRules else 0);
         allHashes1 = storeFrom offset ourInsertedHashes allHashes;
         offset' = length insertedRules + numNonCalicoRules;
         allHashes2 = storeFrom offset' ourAppendedHashes allHashes1
     in (allHashes2, ourInsertedHashes, ourAppendedHashes))"


subsection \<open>\<open>loadDataplaneState\<close>\<close>

text \<open>
  The two loops of \<open>loadDataplaneState\<close> range over Go maps, in an order Go leaves open.
  Each iteration reads and writes the membership of its own chain only, so the loops are
  given by what one iteration decides for its chain: \<open>checkExpectedChain\<close> is the body of
  the first loop, \<open>scanUnexpectedChain\<close> the body of the second. The values stored in
  \<open>chainToDataplaneHashes\<close> and in the map just read are never nil slices, so
  \<open>reflect.DeepEqual\<close> of a looked-up \<open>dpHashes\<close> and a non-nil slice \<open>xs\<close> holds exactly
  when the map has the entry \<open>xs\<close>.
\<close>

datatype mark = Unmarked | MarkDirtyChain | MarkDirtyInsertAppend

definition checkExpectedChain ::
  "StdLib \<Rightarrow> 'f Table \<Rightarrow> (string \<rightharpoonup> string list) \<Rightarrow> string \<Rightarrow> string list \<Rightarrow> mark" where
  "checkExpectedChain lib t dataplaneHashes chainName expectedHashes =
    (if chainName \<in> dirtyChains t \<or> chainName \<in> dirtyInsertAppend t then Unmarked
     else
      (let dpHashes = slice dataplaneHashes chainName
       in if \<not> ourChainsRegexp t chainName then
            (let insertedRules = slice (chainToInsertedRules t) chainName
             in if length insertedRules = 0 then
                  (if list_ex (\<lambda>hash. hash \<noteq> []) dpHashes then MarkDirtyInsertAppend else Unmarked)
                else
                  (let expectedHashes' =
                         fst (expectedHashesForInsertAppendChain lib t chainName (numEmptyStrings dpHashes))
                   in if dataplaneHashes chainName \<noteq> Some expectedHashes' then MarkDirtyInsertAppend
                      else Unmarked))
          else (if dataplaneHashes chainName \<noteq> Some expectedHashes then MarkDirtyChain else Unmarked)))"

definition scanUnexpectedChain :: "'f Table \<Rightarrow> string \<Rightarrow> string list \<Rightarrow> mark" where
  "scanUnexpectedChain t chainName hashes =
    (if chainName \<in> dirtyChains t \<or> chainName \<in> dirtyInsertAppend t then Unmarked
     else if chainToDataplaneHashes t chainName \<noteq> None then Unmarked
     else if \<not> ourChainsRegexp t chainName then
       (if list_ex (\<lambda>hash. hash \<noteq> []) hashes then MarkDirtyInsertAppend else Unmarked)
     else MarkDirtyChain)"

definition checkExpected :: "StdLib \<Rightarrow> (string \<rightharpoonup> string list) \<Rightarrow> 'f Table \<Rightarrow> 'f Table" where
  "checkExpected lib dataplaneHashes t =
    t\<lparr>dirtyChains := dirtyChains t \<union>
         {c. \<exists>expectedHashes. chainToDataplaneHashes t c = Some expectedHashes \<and>
               checkExpectedChain lib t dataplaneHashes c expectedHashes = MarkDirtyChain},
      dirtyInsertAppend := dirtyInsertAppend t \<union>
         {c. \<exists>expectedHashes. chainToDataplaneHashes t c = Some expectedHashes \<and>
               checkExpectedChain lib t dataplaneHashes c expectedHashes = MarkDirtyInsertAppend}\<rparr>"

definition scanUnexpected :: "(string \<rightharpoonup> string list) \<Rightarrow> 'f Table \<Rightarrow> 'f Table" where
  "scanUnexpected dataplaneHashes t =
    t\<lparr>dirtyChains := dirtyChains t \<union>
         {c. \<exists>hashes. dataplaneHashes c = Some hashes \<and> scanUnexpectedChain t c hashes = MarkDirtyChain},
      dirtyInsertAppend := dirtyInsertAppend t \<union>
         {c. \<exists>hashes. dataplaneHashes c = Some hashes \<and>
               scanUnexpectedChain t c hashes = MarkDirtyInsertAppend}\<rparr>"

definition loadDataplaneState :: "StdLib \<Rightarrow> 'f Table \<Rightarrow> panic option \<times> 'f Table" where
  "loadDataplaneState lib t =
    (let t1 = RefreshFeatures t;
         (now, t2) = readClock t1;
         t3 = t2\<lparr>lastReadTime := now\<rparr>;
         (result, t4) = getHashesAndRulesFromDataplane t3
     in case result of
          Inl p \<Rightarrow> (Some p, t4)
        | Inr (dataplaneHashes, dataplaneRules) \<Rightarrow>
            (let t5 = checkExpected lib dataplaneHashes t4;
                 t6 = scanUnexpected dataplaneHashes t5
             in (None, t6\<lparr>chainToDataplaneHashes := dataplaneHashes,
                           chainToFullRules := dataplaneRules,
                           inSyncWithDataPlane := True\<rparr>)))"

subsection \<open>\<open>applyUpdates\<close>\<close>

text \<open>The operations of a \<open>knftables.Transaction\<close> that the reconciler uses.\<close>

datatype txOp =
    AddTable
  | AddChain string
  | FlushChain string
  | DeleteChain string
  | AddSet string
  | AddRule knRule
  | InsertRule knRule
  | ReplaceRule knRule
  | DeleteRule knRule

text \<open>Indexing a slice: out of range, Go panics.\<close>

definition idx :: "'a list \<Rightarrow> nat \<Rightarrow> panic + 'a" where
  "idx xs i = (if i < length xs then Inr (xs ! i) else Inl IndexOutOfRange)"

text \<open>
  The two statements each branch of the loop starts with:
  \<open>prefixFrag := t.commentFrag(currentHashes[i])\<close> and
  \<open>rendered := chain.Rules[i].Render(chainName, prefixFrag, features)\<close>.
\<close>

definition renderRuleAt :: "'f Table \<Rightarrow> 'f \<Rightarrow> string \<Rightarrow> 'f Chain \<Rightarrow> string list \<Rightarrow> nat \<Rightarrow> panic + knRule" where
  "renderRuleAt t features chainName chain currentHashes i =
    (case idx currentHashes i of
       Inl p \<Rightarrow> Inl p
     | Inr hash \<Rightarrow>
        (case idx (Rules chain) i of
           Inl p \<Rightarrow> Inl p
         | Inr rule \<Rightarrow> Inr (Render rule chainName (commentFrag t hash) features)))"

text \<open>
  The statement \<open>rendered.Handle = t.chainToFullRules[chainName][i].Handle\<close>. The rules
  in \<open>chainToFullRules\<close> come from \<open>nft.ListRules\<close>; none is a nil pointer.
\<close>

definition withHandleOf :: "'f Table \<Rightarrow> string \<Rightarrow> nat \<Rightarrow> knRule \<Rightarrow> panic + knRule" where
  "withHandleOf t chainName i rendered =
    (case idx (slice (chainToFullRules t) chainName) i of
       Inl p \<Rightarrow> Inl p
     | Inr old \<Rightarrow> Inr (rendered\<lparr>knHandle := knHandle old\<rparr>))"

text \<open>
  The loop of the second pass over \<open>dirtyChains\<close>, from index \<open>i\<close> on, appending to the
  operations \<open>tx\<close> of the transaction so far.
\<close>

function chainDelta ::
  "'f Table \<Rightarrow> 'f \<Rightarrow> string \<Rightarrow> 'f Chain \<Rightarrow> string list \<Rightarrow> string list \<Rightarrow> nat \<Rightarrow> txOp list \<Rightarrow> panic + txOp list" where
  "chainDelta t features chainName chain previousHashes currentHashes i tx =
    (if i < length previousHashes \<or> i < length currentHashes then
       (if i < length previousHashes \<and> i < length currentHashes then
          (if previousHashes ! i = currentHashes ! i
           then chainDelta t features chainName chain previousHashes currentHashes (Suc i) tx
           else
            (case renderRuleAt t features chainName chain currentHashes i of
               Inl p \<Rightarrow> Inl p
             | Inr rendered \<Rightarrow>
                (case withHandleOf t chainName i rendered of
                   Inl p \<Rightarrow> Inl p
                 | Inr rendered' \<Rightarrow>
                     chainDelta t features chainName chain previousHashes currentHashes (Suc i)
                       (tx @ [ReplaceRule rendered']))))
        else if i < length previousHashes then
          (case renderRuleAt t features chainName chain currentHashes i of
             Inl p \<Rightarrow> Inl p
           | Inr rendered \<Rightarrow>
              (case withHandleOf t chainName i rendered of
                 Inl p \<Rightarrow> Inl p
               | Inr rendered' \<Rightarrow>
                   chainDelta t features chainName chain previousHashes currentHashes (Suc i)
                     (tx @ [DeleteRule rendered'])))
        else
          (case renderRuleAt t features chainName chain currentHashes i of
             Inl p \<Rightarrow> Inl p
           | Inr rendered \<Rightarrow>
               chainDelta t features chainName chain previousHashes currentHashes (Suc i)
                 (tx @ [AddRule rendered])))
     else Inr tx)"
  by pat_completeness auto
termination
  by (relation "measure (\<lambda>(t, features, chainName, chain, previousHashes, currentHashes, i, tx).
        max (length previousHashes) (length currentHashes) - i)") auto

text \<open>
  The body of the second pass for one dirty chain: nothing for a chain with no desired
  state; otherwise the sets the chain names are added and the rules are compared.
\<close>

definition updateChainRules :: "StdLib \<Rightarrow> 'f Table \<Rightarrow> string \<Rightarrow> txOp list \<Rightarrow> panic + txOp list" where
  "updateChainRules lib t chainName tx =
    (case desiredStateOfChain t chainName of
       None \<Rightarrow> Inr tx
     | Some chain \<Rightarrow>
        (let features = GetFeatures t;
             previousHashes = slice (chainToDataplaneHashes t) chainName;
             currentHashes = RuleHashes lib chain features;
             tx1 = tx @ map AddSet (IPSetNames chain)
         in chainDelta t features chainName chain previousHashes currentHashes 0 tx1))"

text \<open>
  \<open>newHashes\<close> after the three passes: an entry \<open>Some None\<close> is a nil slice stored for
  the chain. The second pass stores the hashes of the dirty chains that have a desired
  state, the pass over \<open>dirtyInsertAppend\<close> those of the chains found out of sync, and
  the last pass nil for the dirty chains with no desired state; a later pass overwrites
  an earlier one.
\<close>

definition insertAppendInSync :: "StdLib \<Rightarrow> 'f Table \<Rightarrow> string \<Rightarrow> bool" where
  "insertAppendInSync lib t chainName =
    (let previousHashes = slice (chainToDataplaneHashes t) chainName;
         newChainHashes = fst (expectedHashesForInsertAppendChain lib t chainName (numEmptyStrings previousHashes))
     in chainToDataplaneHashes t chainName = Some newChainHashes)"

definition newHashes :: "StdLib \<Rightarrow> 'f Table \<Rightarrow> (string \<rightharpoonup> string list option)" where
  "newHashes lib t =
    (let pass2 = (\<lambda>c. if c \<in> dirtyChains t
                       then (case desiredStateOfChain t c of
                               Some chain \<Rightarrow> Some (Some (RuleHashes lib chain (GetFeatures t)))
                             | None \<Rightarrow> None)
                       else None);
         pass3 = (\<lambda>c. if c \<in> dirtyInsertAppend t \<and> \<not> insertAppendInSync lib t c
                       then Some (Some (fst (expectedHashesForInsertAppendChain lib t c
                                               (numEmptyStrings (slice (chainToDataplaneHashes t) c)))))
                       else pass2 c);
         pass4 = (\<lambda>c. if c \<in> dirtyChains t \<and> desiredStateOfChain t c = None then Some None else pass3 c)
     in pass4)"

definition newChainToFullRules :: "StdLib \<Rightarrow> 'f Table \<Rightarrow> (string \<rightharpoonup> knRule list)" where
  "newChainToFullRules lib t =
    (\<lambda>c. if c \<in> dirtyInsertAppend t \<and> \<not> insertAppendInSync lib t c
          then Some (slice (chainToFullRules t) c)
          else chainToFullRules t c)"

text \<open>Storing off the updates: a nil entry deletes the chain's hashes.\<close>

definition storeHashes ::
  "(string \<rightharpoonup> string list) \<Rightarrow> (string \<rightharpoonup> string list option) \<Rightarrow> (string \<rightharpoonup> string list)" where
  "storeHashes old new =
    (\<lambda>c. case new c of None \<Rightarrow> old c | Some None \<Rightarrow> None | Some (Some hashes) \<Rightarrow> Some hashes)"

text \<open>
  \<open>applyUpdates\<close>. The transaction always holds the operation that adds the table, so
  its text is never empty and \<open>nft.Run\<close> is always called. What the transaction holds
  reaches the kernel only; the table is updated from \<open>newHashes\<close> and
  \<open>newChainToFullRules\<close>. Building the transaction panics when the loop of some dirty
  chain does. The call of \<open>nft.NewTransaction\<close> is counted in \<open>t1\<close>; the passes read
  nothing that the count changes, so they are computed from \<open>t\<close>. The result
  \<open>Inr False\<close> is the error returned when \<open>nft.Run\<close> fails, \<open>Inr True\<close> is the return
  of nil.
\<close>

definition applyUpdates :: "StdLib \<Rightarrow> 'f Table \<Rightarrow> (panic + bool) \<times> 'f Table" where
  "applyUpdates lib t =
    (let t1 = t\<lparr>nftNewTransactions := Suc (nftNewTransactions t)\<rparr>
     in if \<exists>c \<in> dirtyChains t. isl (updateChainRules lib t c [])
        then (Inl IndexOutOfRange, t1)
        else
         (let hashes = newHashes lib t;
              fullRules = newChainToFullRules lib t;
              ok = nftRun t1 (nftRunCalls t1);
              t2 = t1\<lparr>nftRunCalls := Suc (nftRunCalls t1)\<rparr>
          in if \<not> ok then (Inr False, t2)
             else
              (let (now, t3) = readClock t2;
                   t4 = t3\<lparr>lastWriteTime := now, postWriteInterval := initialPostWriteInterval t3\<rparr>;
                   dynamicMinPostWriteInterval = (peakNftablesReadTime t4 + peakNftablesWriteTime t4) * 2;
                   t5 = (if postWriteInterval t4 \<noteq> 0 \<and> postWriteInterval t4 <s dynamicMinPostWriteInterval
                         then t4\<lparr>postWriteInterval := dynamicMinPostWriteInterval\<rparr> else t4);
                   t6 = t5\<lparr>dirtyChains := {}, dirtyInsertAppend := {}\<rparr>;
                   t7 = t6\<lparr>chainToDataplaneHashes := storeHashes (chainToDataplaneHashes t6) hashes,
                            chainToFullRules := fullRules\<rparr>
               in case loadDataplaneState lib t7 of
                    (Some p, t8) \<Rightarrow> (Inl p, t8)
                  | (None, t8) \<Rightarrow> (Inr True, t8))))"


subsection \<open>\<open>Apply\<close>\<close>

text \<open>
  The first loop of \<open>Apply\<close> doubles \<open>postWriteInterval\<close> in 64 bits. It ends: a word
  that is doubled 64 times is 0, and the loop stops at 0.
\<close>

lemma doubled_64_times: "(x :: 64 word) * 2 ^ 64 = 0"
proof -
  have "(2 :: 64 word) ^ 64 = 0" by simp
  then show ?thesis by (simp only: mult_zero_right)
qed

lemma doubling_measure:
  assumes "(x :: 64 word) \<noteq> 0"
  shows "(LEAST k. (x * 2) * 2 ^ k = 0) < (LEAST k. x * 2 ^ k = 0)"
proof -
  have a: "x * 2 ^ 64 = 0" by (rule doubled_64_times)
  have b: "\<not> x * 2 ^ 0 = 0" using assms by simp
  have "(LEAST k. x * 2 ^ k = 0) = Suc (LEAST m. x * 2 ^ Suc m = 0)"
    using Least_Suc [of "\<lambda>k. x * 2 ^ k = 0" 64, OF a b] .
  moreover have "\<And>m. x * 2 ^ Suc m = (x * 2) * 2 ^ m" by (simp add: mult.assoc)
  ultimately show ?thesis by (simp only: lessI)
qed

function extendPostWriteInterval :: "int \<Rightarrow> bool \<Rightarrow> 'f Table \<Rightarrow> 'f Table" where
  "extendPostWriteInterval now invalidated t =
    (if postWriteInterval t \<noteq> 0 \<and> postWriteInterval t <s Hour \<and>
        \<not> now < Add (lastWriteTime t) (postWriteInterval t)
     then
       (let t1 = t\<lparr>postWriteInterval := postWriteInterval t * 2\<rparr>
        in if \<not> invalidated
           then extendPostWriteInterval now True (InvalidateDataplaneCache ''post update'' t1)
           else extendPostWriteInterval now invalidated t1)
     else t)"
  by pat_completeness auto
termination
  by (relation "measure (\<lambda>(now, invalidated, t). LEAST k. postWriteInterval t * 2 ^ k = 0)")
     (auto simp: doubling_measure InvalidateDataplaneCache_def)

text \<open>
  The retry loop of \<open>Apply\<close>, with its counter \<open>retries\<close> and its \<open>backoffTime\<close>. The
  result is the panic that ended the loop, or \<open>None\<close> when \<open>applyUpdates\<close> returned nil.
\<close>

fun applyRetryLoop :: "StdLib \<Rightarrow> nat \<Rightarrow> Duration \<Rightarrow> 'f Table \<Rightarrow> panic option \<times> 'f Table" where
  "applyRetryLoop lib retries backoffTime t =
    (let (loaded, t1) = (if \<not> inSyncWithDataPlane t then loadDataplaneState lib t else (None, t))
     in case loaded of
          Some p \<Rightarrow> (Some p, t1)
        | None \<Rightarrow>
           (let t2 = t1\<lparr>stillAliveCalls := Suc (stillAliveCalls t1)\<rparr>;
                (result, t3) = applyUpdates lib t2
            in case result of
                 Inl p \<Rightarrow> (Some p, t3)
               | Inr True \<Rightarrow> (None, t3)
               | Inr False \<Rightarrow>
                  (case retries of
                     Suc retries' \<Rightarrow>
                       applyRetryLoop lib retries' (backoffTime * 2) (t3\<lparr>slept := slept t3 @ [backoffTime]\<rparr>)
                   | 0 \<Rightarrow> (Some WriteFailedAfterRetries, t3\<lparr>diagsLoaded := Suc (diagsLoaded t3)\<rparr>))))"

definition rescheduleAfter :: "int \<Rightarrow> 'f Table \<Rightarrow> Duration" where
  "rescheduleAfter now t =
    (let r = (if 0 <s refreshInterval t then refreshInterval t - Sub now (lastReadTime t) else 0)
     in if postWriteInterval t <s Hour then
          (let postWriteReached = Sub (Add (lastWriteTime t) (postWriteInterval t)) now
           in if postWriteReached \<le>s 0 then 1 * Millisecond
              else if refreshInterval t \<le>s 0 \<or> postWriteReached <s r then postWriteReached
              else r)
        else r)"

definition Apply :: "StdLib \<Rightarrow> 'f Table \<Rightarrow> (panic + Duration) \<times> 'f Table" where
  "Apply lib t =
    (let (now, t1) = readClock t;
         lastReadToNow = Sub now (lastReadTime t1);
         refresh = (0 <s refreshInterval t1 \<and> refreshInterval t1 <s lastReadToNow);
         t2 = (if refresh then InvalidateDataplaneCache ''refresh timer'' t1 else t1);
         t3 = extendPostWriteInterval now refresh t2;
         (failed, t4) = applyRetryLoop lib 10 (1 * Millisecond) t3
     in case failed of
          Some p \<Rightarrow> (Inl p, t4)
        | None \<Rightarrow> (Inr (rescheduleAfter now t4), t4))"

subsection \<open>\<open>CheckRulesPresent\<close>\<close>

text \<open>
  The loop over the rules with its index \<open>i\<close>; there is one hash per rule, so
  \<open>hashes[i]\<close> is in range. The nil slice is the empty list: the loop only ever appends.
\<close>

fun presentRules :: "string set \<Rightarrow> string list \<Rightarrow> 'f Rule list \<Rightarrow> nat \<Rightarrow> 'f Rule list \<Rightarrow> 'f Rule list" where
  "presentRules dpHashesSet hashes [] i present = present"
| "presentRules dpHashesSet hashes (r # rules) i present =
    presentRules dpHashesSet hashes rules (Suc i)
      (if hashes ! i \<in> dpHashesSet then present @ [r] else present)"

definition CheckRulesPresent ::
  "StdLib \<Rightarrow> string \<Rightarrow> 'f Rule list \<Rightarrow> 'f Table \<Rightarrow> (panic + 'f Rule list) \<times> 'f Table" where
  "CheckRulesPresent lib chain rules t =
    (let features = GetFeatures t;
         hashes = CalculateRuleHashes lib chain rules features;
         (result, t1) = getHashesAndRulesFromDataplane t
     in case result of
          Inl p \<Rightarrow> (Inl p, t1)
        | Inr (dpHashes, dpRules) \<Rightarrow>
            (Inr (presentRules (set (slice dpHashes chain)) hashes rules 0 []), t1))"

section \<open>Rendering a rule body\<close>

text \<open>The action fragment of a rule: none, so empty, when the rule has no action.\<close>

definition actionFragment :: "'f Rule \<Rightarrow> 'f \<Rightarrow> string" where
  "actionFragment r features = (case Action r of None \<Rightarrow> [] | Some a \<Rightarrow> ToFragment a features)"

text \<open>
  C8. With no fragments handed in, as \<open>Render\<close> calls it, \<open>renderInner\<close> gives the literal
  \<open>counter\<close> when the prefix fragment, the match fragment and the action fragment are all
  empty, and otherwise the fragments that are not empty, joined by single spaces. The body
  of a rendered rule is this with an empty prefix fragment.
\<close>

theorem renderInner_counter_or_joined:
  "renderInner r [] prefixFragment features =
     (if prefixFragment = [] \<and> Match_Render (Match r) = [] \<and> actionFragment r features = []
      then ''counter''
      else Join (filter (\<lambda>f. f \<noteq> []) [prefixFragment, Match_Render (Match r), actionFragment r features]) '' '')
   \<and> knRule (Render r chain hashFragment features) =
     (if Match_Render (Match r) = [] \<and> actionFragment r features = []
      then ''counter''
      else Join (filter (\<lambda>f. f \<noteq> []) [Match_Render (Match r), actionFragment r features]) '' '')"
  by (auto simp: Render_def renderInner_def actionFragment_def Let_def split: option.splits)

theorem renderInner_counter_or_joined_witness:
  "renderInner \<lparr>Match = MatchCriteria [] [], Action = None, Comment = []\<rparr> [] [] () = ''counter''
   \<and> renderInner \<lparr>Match = MatchCriteria ''ip saddr 10.0.0.1'' [],
                   Action = Some (MkAction (\<lambda>_. ''accept'') None), Comment = []\<rparr> [] [] ()
     = ''ip saddr 10.0.0.1 accept''"
  using renderInner_counter_or_joined
    [of "\<lparr>Match = MatchCriteria [] [], Action = None, Comment = []\<rparr>" "[]" "()" "''c''" "[]"]
    renderInner_counter_or_joined
    [of "\<lparr>Match = MatchCriteria ''ip saddr 10.0.0.1'' [],
         Action = Some (MkAction (\<lambda>_. ''accept'') None), Comment = []\<rparr>" "[]" "()" "''c''" "[]"]
  by (simp add: actionFragment_def)


section \<open>Inputs for the evaluations\<close>

text \<open>
  A rule that jumps to a chain; stand-ins for the two library functions (the identity,
  which is enough to tell hashes apart); and the table \<open>NewTable\<close> builds for
  \<open>cali-filter\<close> with the hash prefix \<open>cali:\<close>, the chains that start with \<open>cali-\<close> as
  ours, insert mode, no refresh interval, a kernel that lists no chain and on which every
  \<open>nft.Run\<close> succeeds, and a clock that stands at 0.
\<close>

definition jumpTo :: "string \<Rightarrow> unit Rule" where
  "jumpTo target =
    \<lparr>Match = MatchCriteria [] [],
     Action = Some (MkAction (\<lambda>_. ''jump '' @ target) (Some target)),
     Comment = []\<rparr>"

definition plainLib :: StdLib where
  "plainLib = \<lparr>sha224 = (\<lambda>s. s), b64 = (\<lambda>s. s)\<rparr>"

definition freshFilterTable :: "unit Table" where
  "freshFilterTable =
    (case NewTable ''cali-filter'' ''cali:'' (\<lambda>_. ()) (\<lambda>c. take 5 c = ''cali-'') ''insert'' 0 0
            (\<lambda>_. Listed []) (\<lambda>_. True) (\<lambda>_. 0) of
       Inr t \<Rightarrow> t)"

section \<open>The comment of a rendered rule\<close>

text \<open>
  C1. The claim: the comment of every rendered rule is the hash prefix followed by the
  fingerprint, with each user comment line appended after \<open>; \<close>, also for a rule with no
  user comment. The code at two inputs, with the prefix fragment
  \<open>cali:0123456789abcdef\<close>: a rule with no user comment gets no comment at all, and a
  rule with the two lines \<open>a\<close> and \<open>b\<close> gets the prefix fragment once per line, the
  pieces joined by a space.
\<close>

theorem Render_comment_evaluated:
  "knComment (Render \<lparr>Match = MatchCriteria [] [], Action = None, Comment = []\<rparr>
                ''FORWARD'' ''cali:0123456789abcdef'' ()) = None
   \<and> knComment (Render \<lparr>Match = MatchCriteria [] [], Action = None, Comment = [''a'', ''b'']\<rparr>
                ''FORWARD'' ''cali:0123456789abcdef'' ())
     = Some ''cali:0123456789abcdef; a cali:0123456789abcdef; b''"
  by (simp add: Render_def comment_def truncateComment_def maxCommentLen_def shellSafe_def)

text \<open>In general the comment is nil exactly for the rules with no user comment.\<close>

lemma Join_eq_Nil_iff: "Join xs sep = [] \<longleftrightarrow> (\<forall>x\<in>set xs. x = []) \<and> (sep = [] \<or> length xs \<le> 1)"
  by (induction xs sep rule: Join.induct) auto

lemma comment_None_iff: "comment r prefixFragment = None \<longleftrightarrow> Comment r = []"
  by (cases "Comment r") (auto simp: comment_def Let_def Join_eq_Nil_iff)

section \<open>The fingerprint read back from a comment\<close>

text \<open>
  C3. The claim: a comment \<open>cali:\<close> followed by 16 characters yields those 16
  characters, and a comment without the prefix yields the empty string. The code at the
  comments \<open>cali:0123456789abcdef\<close> and \<open>foreign\<close>, with the prefix \<open>cali:\<close>: the part
  before the first colon is \<open>cali\<close>, which does not start with \<open>cali:\<close>, so the hash
  recorded is \<open>cali\<close>; the comment without a colon is recorded whole.
\<close>

theorem ruleHash_evaluated:
  "ruleHash ''cali:'' \<lparr>knChain = ''cali-x'', knRule = ''counter'',
                        knComment = Some ''cali:0123456789abcdef'', knHandle = Some 4\<rparr> = ''cali''
   \<and> ruleHash ''cali:'' \<lparr>knChain = ''FORWARD'', knRule = ''counter'',
                        knComment = Some ''foreign'', knHandle = Some 5\<rparr> = ''foreign''"
  by (simp add: ruleHash_def TrimPrefix_def)

section \<open>Reference counts under the public mutations\<close>

text \<open>
  C5. The claim: after any sequence of public mutations on a fresh table, every count
  stored in \<open>chainRefCounts\<close> is positive. The code on the fresh table for
  \<open>cali-filter\<close>: rules that jump to \<open>B\<close> are inserted into the chain \<open>X\<close>, which
  is not referenced, so \<open>B\<close> is not counted; then \<open>FORWARD\<close> gets a jump to \<open>X\<close>,
  which makes \<open>X\<close> referenced; then the rules of \<open>X\<close> are replaced by none, and the
  count of \<open>B\<close>, which has no entry, is decremented: the entry stored is -1. Each call
  returns within the depth 3.
\<close>

theorem chainRefCounts_negative_evaluated:
  "(case InsertOrAppendRules 3 ''X'' [jumpTo ''B''] freshFilterTable of
      None \<Rightarrow> None
    | Some t1 \<Rightarrow>
       (case InsertOrAppendRules 3 ''FORWARD'' [jumpTo ''X''] t1 of
          None \<Rightarrow> None
        | Some t2 \<Rightarrow>
           (case InsertOrAppendRules 3 ''X'' [] t2 of
              None \<Rightarrow> None
            | Some t3 \<Rightarrow> Some (chainRefCounts t3 ''B''))))
   = Some (Some (- 1))"
  by (simp add: freshFilterTable_def NewTable_def tableToChains_def InsertOrAppendRules_def
      jumpTo_def slice_def chainIsReferenced_def refCount_def referredChain_def
      InvalidateDataplaneCache_def numeral_3_eq_3 Let_def)

section \<open>Expected hashes of a chain we insert into\<close>

lemma length_hashRules: "length (hashRules lib name features hash rules) = length rules"
  by (induction rules arbitrary: hash) (simp_all add: Let_def)

lemma length_CalculateRuleHashes: "length (CalculateRuleHashes lib name rules features) = length rules"
  by (simp add: CalculateRuleHashes_def RuleHashes_def length_hashRules)

lemma length_storeFrom: "length (storeFrom k hs allHashes) = length allHashes"
  by (induction hs arbitrary: k allHashes) simp_all

lemma storeFrom_eq:
  "k + length hs \<le> length allHashes \<Longrightarrow>
   storeFrom k hs allHashes = take k allHashes @ hs @ drop (k + length hs) allHashes"
proof (induction hs arbitrary: k allHashes)
  case Nil
  then show ?case by simp
next
  case (Cons h hs)
  have "storeFrom (Suc k) hs (allHashes[k := h]) =
        take (Suc k) (allHashes[k := h]) @ hs @ drop (Suc k + length hs) (allHashes[k := h])"
    using Cons.prems by (intro Cons.IH) simp
  moreover have "take (Suc k) (allHashes[k := h]) = take k allHashes @ [h]"
    using Cons.prems by (simp add: take_Suc_conv_app_nth)
  ultimately show ?case by simp
qed

text \<open>
  C6. \<open>expectedHashesForInsertAppendChain\<close> returns the hashes of the inserted rules,
  seeded with the chain name, and those of the appended rules, seeded with the chain name
  followed by \<open>*appends*\<close>; \<open>allHashes\<close> has one entry per inserted rule, per appended
  rule and per foreign rule; in append mode it is the \<open>n\<close> empty strings, then the
  inserted hashes, then the appended hashes, and otherwise (insert mode) the inserted
  hashes, then the \<open>n\<close> empty strings, then the appended hashes.
\<close>

theorem expectedHashes_layout:
  assumes "expectedHashesForInsertAppendChain lib t chainName n =
             (allHashes, ourInsertedHashes, ourAppendedHashes)"
  shows "ourInsertedHashes =
           CalculateRuleHashes lib chainName (slice (chainToInsertedRules t) chainName) (GetFeatures t)
       \<and> ourAppendedHashes =
           CalculateRuleHashes lib (chainName @ ''*appends*'') (slice (chainToAppendedRules t) chainName)
             (GetFeatures t)
       \<and> length allHashes =
           length (slice (chainToInsertedRules t) chainName) +
           length (slice (chainToAppendedRules t) chainName) + n
       \<and> allHashes =
           (if insertMode t = ''append''
            then replicate n [] @ ourInsertedHashes @ ourAppendedHashes
            else ourInsertedHashes @ replicate n [] @ ourAppendedHashes)"
proof -
  let ?ins = "slice (chainToInsertedRules t) chainName"
  let ?app = "slice (chainToAppendedRules t) chainName"
  have e: "CalculateRuleHashes lib c [] f = []" for c and f :: 'a
    by (simp add: CalculateRuleHashes_def RuleHashes_def)
  have i: "ourInsertedHashes = CalculateRuleHashes lib chainName ?ins (GetFeatures t)"
    using assms by (cases "?ins") (auto simp: expectedHashesForInsertAppendChain_def Let_def e)
  have a: "ourAppendedHashes = CalculateRuleHashes lib (chainName @ ''*appends*'') ?app (GetFeatures t)"
    using assms by (cases "?app") (auto simp: expectedHashesForInsertAppendChain_def Let_def e)
  have li: "length ourInsertedHashes = length ?ins" by (simp add: i length_CalculateRuleHashes)
  have la: "length ourAppendedHashes = length ?app" by (simp add: a length_CalculateRuleHashes)
  have eq: "allHashes = storeFrom (length ?ins + n) ourAppendedHashes
       (storeFrom (if insertMode t = ''append'' then n else 0) ourInsertedHashes
          (replicate (length ?ins + length ?app + n) []))"
    using assms i a by (auto simp: expectedHashesForInsertAppendChain_def Let_def e)
  have len: "length allHashes = length ?ins + length ?app + n"
    by (simp add: eq length_storeFrom)
  have lay: "allHashes = (if insertMode t = ''append''
                          then replicate n [] @ ourInsertedHashes @ ourAppendedHashes
                          else ourInsertedHashes @ replicate n [] @ ourAppendedHashes)"
    by (simp add: eq storeFrom_eq length_storeFrom li la replicate_add [symmetric])
  from i a len lay show ?thesis by blast
qed

theorem expectedHashes_layout_witness:
  "fst (expectedHashesForInsertAppendChain plainLib
          (freshFilterTable\<lparr>chainToInsertedRules := [''FORWARD'' \<mapsto> [jumpTo ''cali-a'']],
                             chainToAppendedRules := [''FORWARD'' \<mapsto> [jumpTo ''cali-b'']]\<rparr>)
          ''FORWARD'' 2)
   = [''FORWARDadd rule '', [], [], ''FORWARD*appends*'']"
  using expectedHashes_layout
    [of plainLib
        "freshFilterTable\<lparr>chainToInsertedRules := [''FORWARD'' \<mapsto> [jumpTo ''cali-a'']],
                           chainToAppendedRules := [''FORWARD'' \<mapsto> [jumpTo ''cali-b'']]\<rparr>"
        "''FORWARD''" 2
        "fst (expectedHashesForInsertAppendChain plainLib
          (freshFilterTable\<lparr>chainToInsertedRules := [''FORWARD'' \<mapsto> [jumpTo ''cali-a'']],
                             chainToAppendedRules := [''FORWARD'' \<mapsto> [jumpTo ''cali-b'']]\<rparr>)
          ''FORWARD'' 2)"
        "fst (snd (expectedHashesForInsertAppendChain plainLib
          (freshFilterTable\<lparr>chainToInsertedRules := [''FORWARD'' \<mapsto> [jumpTo ''cali-a'']],
                             chainToAppendedRules := [''FORWARD'' \<mapsto> [jumpTo ''cali-b'']]\<rparr>)
          ''FORWARD'' 2))"
        "snd (snd (expectedHashesForInsertAppendChain plainLib
          (freshFilterTable\<lparr>chainToInsertedRules := [''FORWARD'' \<mapsto> [jumpTo ''cali-a'']],
                             chainToAppendedRules := [''FORWARD'' \<mapsto> [jumpTo ''cali-b'']]\<rparr>)
          ''FORWARD'' 2))"]
  by (simp add: freshFilterTable_def NewTable_def Let_def slice_def GetFeatures_def
      CalculateRuleHashes_def RuleHashes_def RenderAppend_def renderInner_def jumpTo_def
      plainLib_def HashLength_def numeral_2_eq_2)

section \<open>\<open>InvalidateDataplaneCache\<close>\<close>

text \<open>
  C10, as amended. After one call the cache is marked out of sync; the stored reason is
  the given one when the cache was in sync before the call, and otherwise the reason
  stored before; a second call with any reason changes nothing; and the call changes no
  field but \<open>inSyncWithDataPlane\<close> and \<open>reason\<close>.
\<close>

theorem InvalidateDataplaneCache_narrow:
  "\<not> inSyncWithDataPlane (InvalidateDataplaneCache why t)
   \<and> reason (InvalidateDataplaneCache why t) = (if inSyncWithDataPlane t then why else reason t)
   \<and> InvalidateDataplaneCache why' (InvalidateDataplaneCache why t) = InvalidateDataplaneCache why t
   \<and> InvalidateDataplaneCache why t =
       t\<lparr>inSyncWithDataPlane := False, reason := reason (InvalidateDataplaneCache why t)\<rparr>"
  by (simp add: InvalidateDataplaneCache_def)

theorem InvalidateDataplaneCache_narrow_witness:
  "reason (InvalidateDataplaneCache ''chain update''
             (freshFilterTable\<lparr>inSyncWithDataPlane := True\<rparr>)) = ''chain update''
   \<and> reason (InvalidateDataplaneCache ''insertion'' freshFilterTable) = []
   \<and> InvalidateDataplaneCache ''insertion''
        (InvalidateDataplaneCache ''chain update'' (freshFilterTable\<lparr>inSyncWithDataPlane := True\<rparr>))
      = InvalidateDataplaneCache ''chain update'' (freshFilterTable\<lparr>inSyncWithDataPlane := True\<rparr>)"
  using InvalidateDataplaneCache_narrow
          [of "''chain update''" "freshFilterTable\<lparr>inSyncWithDataPlane := True\<rparr>" "''insertion''"]
        InvalidateDataplaneCache_narrow [of "''insertion''" freshFilterTable "''insertion''"]
  by (simp add: freshFilterTable_def NewTable_def Let_def)

text \<open>
  The claim as stated fails on the fresh table, which is out of sync from the start: the
  call leaves its empty reason in place.
\<close>

theorem InvalidateDataplaneCache_reason_counterexample:
  "reason (InvalidateDataplaneCache ''refresh timer'' freshFilterTable) \<noteq> ''refresh timer''"
  by (simp add: InvalidateDataplaneCache_def freshFilterTable_def NewTable_def Let_def)


section \<open>Shrinking a chain\<close>

lemma renderRuleAt_out_of_range:
  "length currentHashes \<le> i \<Longrightarrow>
   renderRuleAt t features chainName chain currentHashes i = Inl IndexOutOfRange"
  by (simp add: renderRuleAt_def idx_def)

lemma renderRuleAt_panic:
  "renderRuleAt t features chainName chain currentHashes i = Inl p \<Longrightarrow> p = IndexOutOfRange"
  by (auto simp: renderRuleAt_def idx_def split: if_splits sum.splits)

lemma withHandleOf_panic: "withHandleOf t chainName i rendered = Inl p \<Longrightarrow> p = IndexOutOfRange"
  by (auto simp: withHandleOf_def idx_def split: if_splits sum.splits)

declare chainDelta.simps [simp del]

text \<open>
  Whenever the previous hashes of a chain are more than the current ones, the loop
  panics: at the latest when \<open>i\<close> reaches the number of current hashes, where the branch
  that deletes reads \<open>currentHashes[i]\<close>.
\<close>

lemma chainDelta_shrink_panics:
  "length currentHashes < length previousHashes \<Longrightarrow> i \<le> length currentHashes \<Longrightarrow>
   chainDelta t features chainName chain previousHashes currentHashes i tx = Inl IndexOutOfRange"
proof (induction t features chainName chain previousHashes currentHashes i tx rule: chainDelta.induct)
  case (1 t features chainName chain previousHashes currentHashes i tx)
  show ?case
  proof (cases "i < length currentHashes")
    case True
    then have le: "Suc i \<le> length currentHashes" by simp
    show ?thesis
    proof (cases "previousHashes ! i = currentHashes ! i")
      case same: True
      show ?thesis
        using "1.IH"(1) "1.prems" True same le
        by (subst chainDelta.simps) simp
    next
      case differ: False
      show ?thesis
      proof (cases "renderRuleAt t features chainName chain currentHashes i")
        case (Inl p)
        then show ?thesis
          using "1.prems" True differ renderRuleAt_panic [OF Inl]
          by (subst chainDelta.simps) simp
      next
        case (Inr rendered)
        show ?thesis
        proof (cases "withHandleOf t chainName i rendered")
          case (Inl p)
          then show ?thesis
            using "1.prems" True differ Inr withHandleOf_panic [OF Inl]
            by (subst chainDelta.simps) simp
        next
          case rr: (Inr rendered')
          show ?thesis
            using "1.IH"(2) [OF _ _ differ Inr rr] "1.prems" True differ Inr rr le
            by (subst chainDelta.simps) simp
        qed
      qed
    qed
  next
    case False
    with "1.prems" have "i = length currentHashes" by simp
    then show ?thesis
      using "1.prems" by (subst chainDelta.simps) (simp add: renderRuleAt_out_of_range)
  qed
qed

text \<open>
  A table in sync with a dataplane that holds the chain \<open>cali-x\<close> with one rule, where
  the chain is referenced, dirty, and now desired with no rule.
\<close>

definition shrunkTable :: "unit Table" where
  "shrunkTable =
    freshFilterTable
      \<lparr>chainNameToChain := [''cali-x'' \<mapsto> \<lparr>Name = ''cali-x'', Rules = []\<rparr>],
       chainRefCounts := (chainRefCounts freshFilterTable)(''cali-x'' \<mapsto> 1),
       dirtyChains := {''cali-x''},
       inSyncWithDataPlane := True,
       chainToDataplaneHashes := [''cali-x'' \<mapsto> [''0123456789abcdef'']],
       chainToFullRules := [''cali-x'' \<mapsto> [\<lparr>knChain = ''cali-x'', knRule = ''counter'',
                                               knComment = Some ''cali:0123456789abcdef; note'',
                                               knHandle = Some 7\<rparr>]]\<rparr>"

text \<open>
  C2. The claim: where the previous hashes of a dirty chain are more than the new ones,
  the rules at the extra indices are deleted by their handles, with every index in range.
  The code on \<open>shrunkTable\<close>: at index 0 only the previous hash exists, the branch that
  deletes reads \<open>currentHashes[0]\<close> of an empty slice, and the pass, \<open>applyUpdates\<close> and
  \<open>Apply\<close> panic with an index out of range.
\<close>

theorem shrinking_chain_panics_evaluated:
  "updateChainRules plainLib shrunkTable ''cali-x'' [] = Inl IndexOutOfRange
   \<and> fst (applyUpdates plainLib shrunkTable) = Inl IndexOutOfRange
   \<and> fst (Apply plainLib shrunkTable) = Inl IndexOutOfRange"
  by (simp add: Apply_def readClock_def split_beta applyUpdates_def
      updateChainRules_def shrunkTable_def desiredStateOfChain_def chainIsReferenced_def
      refCount_def slice_def RuleHashes_def IPSetNames_def chainDelta.simps renderRuleAt_def idx_def Let_def
      freshFilterTable_def NewTable_def Sub_def Add_def word_sless_alt word_sle_eq
      minPostWriteInterval_def Millisecond_def Hour_def InvalidateDataplaneCache_def)

end
